theory Spec2Isabelle
  imports Complex_Main "HOL-Library.AList"
begin

section \<open>Data model\<close>

text \<open>
  The values a perturber parameter can take and a value sequence can hold: a Python
  float is a finite number, an infinity or a NaN; \<open>None\<close> is the default of optional
  parameters. Finite values are rationals (every finite double is one).
\<close>

datatype pyval = Finite rat | PosInf | NegInf | NaN | NoneVal


text \<open>
  A perturber class (a Python type implementing the \<open>PerturbImage\<close> interface). Two classes
  are different objects even when their \<open>__name__\<close> agrees, so the class carries its module
  beside its name. \<open>init_params\<close> are the keyword parameters of its constructor with their
  declared defaults. \<open>init_check\<close> is the validation in the constructor's body: given the
  arguments of a call it yields the message of the \<open>ValueError\<close> the constructor raises, if
  it raises one.
\<close>

record perturb_image_type =
  type_module :: string
  type_name :: string
  init_params :: "(string \<times> pyval) list"
  init_check :: "(string \<times> pyval) list \<Rightarrow> string option"

text \<open>
  A perturber instance: its class and the constructor arguments it was built with, which is
  what its \<open>get_config()\<close> hands back.
\<close>

record perturb_image =
  instance_of :: perturb_image_type
  instance_config :: "(string \<times> pyval) list"

text \<open>
  The values a configuration dictionary holds: strings, numbers (JSON-compatible), and a
  class object once \<open>from_config\<close> has resolved the name.
\<close>

datatype cval = StrV string | FloatV rat | IntV int | TypeV perturb_image_type

type_synonym config = "(string \<times> cval) list"

text \<open>
  Python exceptions as values. \<open>KeyError\<close> carries the key that was looked up, the other
  classes their message.
\<close>

datatype error =
    TypeError string
  | ValueError string
  | KeyError cval
  | IndexError

text \<open>
  \<open>DummyPerturber\<close> of \<open>tests/impls/perturb_image_factory/generic/test_step.py\<close>:
  \<^verbatim>\<open>def __init__(self, param_1: int = 1, param_2: int = 2)\<close> stores both arguments
  unchecked, and \<^verbatim>\<open>get_config\<close> returns them.
\<close>

definition DummyPerturber :: perturb_image_type where
  "DummyPerturber =
     \<lparr>type_module = ''test_step'', type_name = ''DummyPerturber'',
      init_params = [(''param_1'', Finite 1), (''param_2'', Finite 2)],
      init_check = (\<lambda>args. None)\<rparr>"

text \<open>
  A second class of the same \<open>__name__\<close> in another module, as a test module of its own
  would define it.
\<close>

definition OtherDummyPerturber :: perturb_image_type where
  "OtherDummyPerturber =
     \<lparr>type_module = ''test_linspace_step'', type_name = ''DummyPerturber'',
      init_params = [(''param_1'', Finite 1), (''param_2'', Finite 2)],
      init_check = (\<lambda>args. None)\<rparr>"

text \<open>
  Modelled from the spec: \<open>SaltNoisePerturber\<close>
  (\<open>nrtk/impls/perturb_image/skimage/random_noise.py\<close>) is not among the sources; its tests
  are. Section 7: out-of-range parameter values are rejected by the perturber's own
  validation. \<open>test_configuration_bounds\<close> of \<open>test_random_noise.py\<close>: the amounts 0, 0.5
  and 1 are accepted, 2.0 and -3.0 raise \<open>ValueError\<close> ("SaltNoisePerturber invalid
  amount"). The constructor takes \<open>amount\<close> and \<open>rng\<close>; the default of \<open>amount\<close> is not
  visible in the tests (0.05 in the package) and plays no part below.
\<close>

definition salt_amount_check :: "(string \<times> pyval) list \<Rightarrow> string option" where
  "salt_amount_check args =
     (case map_of args ''amount'' of
        Some (Finite a) \<Rightarrow>
          (if a < 0 \<or> 1 < a then Some ''SaltNoisePerturber invalid amount'' else None)
      | Some PosInf \<Rightarrow> Some ''SaltNoisePerturber invalid amount''
      | Some NegInf \<Rightarrow> Some ''SaltNoisePerturber invalid amount''
      | _ \<Rightarrow> None)"

definition SaltNoisePerturber :: perturb_image_type where
  "SaltNoisePerturber =
     \<lparr>type_module = ''nrtk.impls.perturb_image.skimage.random_noise'',
      type_name = ''SaltNoisePerturber'',
      init_params = [(''amount'', Finite (1 / 20)), (''rng'', NoneVal)],
      init_check = salt_amount_check\<rparr>"

text \<open>
  Instantiating a class with one keyword argument, \<^verbatim>\<open>perturber(**{theta_key: value})\<close>:
  Python raises \<open>TypeError\<close> for a keyword the constructor does not declare; every other
  parameter takes its default; then the constructor's body runs and may reject the
  arguments with a \<open>ValueError\<close>.
\<close>

definition construct :: "perturb_image_type \<Rightarrow> string \<Rightarrow> pyval \<Rightarrow> error + perturb_image" where
  "construct t key v =
     (if key \<notin> set (map fst (init_params t))
      then Inl (TypeError ''__init__() got an unexpected keyword argument'')
      else
        (case init_check t (AList.update key v (init_params t)) of
           Some message \<Rightarrow> Inl (ValueError message)
         | None \<Rightarrow>
             Inr \<lparr>instance_of = t, instance_config = AList.update key v (init_params t)\<rparr>))"

section \<open>LinSpacePerturbImageFactory\<close>

text \<open>
  The fields set by \<open>__init__\<close> of
  \<open>src/nrtk/impls/perturb_image_factory/generic/linspace_step.py\<close>. \<open>start\<close> and \<open>stop\<close>
  are finite numbers; \<open>step\<close> is the number of instances to generate (an integer).
\<close>

record LinSpacePerturbImageFactory =
  perturber :: perturb_image_type
  theta_key :: string
  start :: rat
  stop :: rat
  step :: int

text \<open>Decimal digits of a number, as Python's \<open>%s\<close> prints an integer.\<close>

function show_nat :: "nat \<Rightarrow> string" where
  "show_nat n =
     (if n < 10 then [''0123456789'' ! n]
      else show_nat (n div 10) @ [''0123456789'' ! (n mod 10)])"
  by pat_completeness auto
termination
  by (relation "measure (\<lambda>n. n)") auto

declare show_nat.simps [simp del]

definition show_int :: "int \<Rightarrow> string" where
  "show_int i = (if i < 0 then ''-'' @ show_nat (nat (- i)) else show_nat (nat i))"

text \<open>
  \<^verbatim>\<open>np.linspace(start, stop, num, endpoint=False).tolist()\<close> is NumPy's, not this
  repository's. Its test of the count is integer logic and is modelled as it is:
  \<^verbatim>\<open>if num < 0: raise ValueError("Number of samples, %s, must be non-negative." % num)\<close>.
  The samples themselves are computed in double precision
  (\<open>arange(0, num) * ((stop - start) / num) + start\<close>, each operation rounded, the count
  an \<open>int64\<close>): that computation is the parameter \<open>samples\<close>, and nothing is assumed of
  it but what a theorem states.
\<close>

definition np_linspace ::
  "(rat \<Rightarrow> rat \<Rightarrow> nat \<Rightarrow> pyval list) \<Rightarrow> rat \<Rightarrow> rat \<Rightarrow> int \<Rightarrow> error + pyval list" where
  "np_linspace samples a b num =
     (if num < 0
      then Inl (ValueError (''Number of samples, '' @ show_int num @ '', must be non-negative.''))
      else Inr (samples a b (nat num)))"

text \<open>
  The samples where no operation rounds. Double precision gives exactly these for the
  operands of the scenarios below, \<open>(1, 6, 2)\<close>, \<open>(6, 1, 2)\<close> and \<open>(0, 4, 2)\<close>: the
  difference, the quotient, the products and the sums are small multiples of \<open>1/2\<close>.
\<close>

definition unrounded_samples :: "rat \<Rightarrow> rat \<Rightarrow> nat \<Rightarrow> pyval list" where
  "unrounded_samples a b n =
     map (\<lambda>i. Finite (rat_of_nat i * ((b - a) / rat_of_nat n) + a)) [0..<n]"

text \<open>
  \<^verbatim>\<open>
  @property
  def thetas(self):
      if self.start == self.stop:
          return []
      return np.linspace(self.start, self.stop, self.step, endpoint=False).tolist()
  \<close>
\<close>

definition thetas ::
  "(rat \<Rightarrow> rat \<Rightarrow> nat \<Rightarrow> pyval list) \<Rightarrow> LinSpacePerturbImageFactory \<Rightarrow> error + pyval list" where
  "thetas samples self =
     (if start self = stop self then Inr []
      else np_linspace samples (start self) (stop self) (step self))"


section \<open>The factory interface\<close>

text \<open>
  Modelled from the spec: the base class \<open>PerturbImageFactory\<close>
  (\<open>nrtk/interfaces/perturb_image_factory.py\<close>) is not among the sources; only its
  subclass and its tests are. Section 4.2: \<open>length()\<close> is the number of values in the
  produced sequence. A factory whose \<open>thetas\<close> raises has no length: the error passes
  through.
\<close>

definition factory_len :: "error + 'v list \<Rightarrow> error + nat" where
  "factory_len produced = (case produced of Inl e \<Rightarrow> Inl e | Inr vs \<Rightarrow> Inr (length vs))"

definition len ::
  "(rat \<Rightarrow> rat \<Rightarrow> nat \<Rightarrow> pyval list) \<Rightarrow> LinSpacePerturbImageFactory \<Rightarrow> error + nat" where
  "len samples self = factory_len (thetas samples self)"

section \<open>StepPerturbImageFactory\<close>

text \<open>
  Modelled from the spec: \<open>StepPerturbImageFactory\<close>
  (\<open>nrtk/impls/perturb_image_factory/generic/step.py\<close>) is not among the sources. Section
  4.1, Step variant: given \<open>(start, stop, step_size)\<close>, the arithmetic sequence
  \<open>start, start + step_size, \<dots>\<close> while strictly less than \<open>stop\<close> (or greater than, if
  \<open>step_size\<close> is negative). The sentence fixes no result where the sequence never
  leaves the range (\<open>step_size = 0\<close> with \<open>start < stop\<close>): the model has no value
  (\<open>None\<close>) there.
\<close>

record StepPerturbImageFactory =
  step_perturber :: perturb_image_type
  step_theta_key :: string
  step_start :: int
  step_stop :: int
  step_size :: int

partial_function (option) step_from :: "int \<Rightarrow> int \<Rightarrow> int \<Rightarrow> int list option" where
  "step_from v stop_v sz =
     (if (if sz < 0 then stop_v < v else v < stop_v)
      then Option.bind (step_from (v + sz) stop_v sz) (\<lambda>rest. Some (v # rest))
      else Some [])"

definition step_thetas :: "StepPerturbImageFactory \<Rightarrow> int list option" where
  "step_thetas self = step_from (step_start self) (step_stop self) (step_size self)"

definition step_len :: "StepPerturbImageFactory \<Rightarrow> nat option" where
  "step_len self = map_option length (step_thetas self)"

text \<open>
  Modelled from the spec: \<open>__getitem__\<close> of the absent base class. Section 4.2:
  \<open>get(index)\<close> fails with an \<open>IndexError\<close>-class error if \<open>index\<close> is negative or
  \<open>>= length()\<close>; otherwise it returns a newly constructed perturber of the bound type
  with constructor argument \<open>theta_key\<close> set to the \<open>index\<close>-th produced value, all
  other arguments taking their declared defaults. \<open>getitem\<close> is that rule on a produced
  sequence.
\<close>

definition getitem :: "perturb_image_type \<Rightarrow> string \<Rightarrow> pyval list \<Rightarrow> int \<Rightarrow> error + perturb_image" where
  "getitem t key produced idx =
     (if idx < 0 \<or> int (length produced) \<le> idx then Inl IndexError
      else construct t key (produced ! nat idx))"

text \<open>
  Modelled from the spec, as \<open>getitem\<close>: the two tests of section 4.2 in their order. A
  negative index fails before the length is asked for; \<open>length()\<close> needs the value
  sequence, so where \<open>thetas\<close> raises, a non-negative index fails with that error.
\<close>

definition get ::
  "(rat \<Rightarrow> rat \<Rightarrow> nat \<Rightarrow> pyval list) \<Rightarrow> LinSpacePerturbImageFactory \<Rightarrow> int \<Rightarrow> error + perturb_image" where
  "get samples self idx =
     (if idx < 0 then Inl IndexError
      else
        (case thetas samples self of
           Inl e \<Rightarrow> Inl e
         | Inr vs \<Rightarrow> getitem (perturber self) (theta_key self) vs idx))"


section \<open>Configuration export and import\<close>

text \<open>
  Modelled from the spec: \<open>get_config\<close> of the absent base class, which
  \<open>LinSpacePerturbImageFactory.get_config\<close> extends through \<open>super()\<close>. Section 4.2,
  \<open>export_config()\<close>: a mapping capturing the perturber type's registered name (not the
  type object) and \<open>theta_key\<close>.
\<close>

definition base_get_config :: "perturb_image_type \<Rightarrow> string \<Rightarrow> config" where
  "base_get_config t key = [(''perturber'', StrV (type_name t)), (''theta_key'', StrV key)]"

text \<open>
  \<^verbatim>\<open>
  def get_config(self):
      cfg = super().get_config()
      cfg["perturber"] = self.perturber.__name__
      cfg["start"] = self.start
      cfg["stop"] = self.stop
      cfg["step"] = self.step
      return cfg
  \<close>
\<close>

definition get_config :: "LinSpacePerturbImageFactory \<Rightarrow> config" where
  "get_config self =
     (let cfg = base_get_config (perturber self) (theta_key self);
          cfg = AList.update ''perturber'' (StrV (type_name (perturber self))) cfg;
          cfg = AList.update ''start'' (FloatV (start self)) cfg;
          cfg = AList.update ''stop'' (FloatV (stop self)) cfg;
          cfg = AList.update ''step'' (IntV (step self)) cfg
      in cfg)"

text \<open>
  \<^verbatim>\<open>type_dict = {pert_impl.__name__: pert_impl for pert_impl in perturber_impls}\<close>
  over the registered implementations \<open>PerturbImage.get_impls()\<close>, taken as a parameter in
  iteration order. A later class of the same name replaces an earlier one.
\<close>

definition type_dict :: "perturb_image_type list \<Rightarrow> (string \<rightharpoonup> perturb_image_type)" where
  "type_dict perturber_impls =
     map_of (rev (map (\<lambda>pert_impl. (type_name pert_impl, pert_impl)) perturber_impls))"

text \<open>
  The subscript \<^verbatim>\<open>type_dict[key]\<close>: Python raises \<open>KeyError(key)\<close> for a key the
  dictionary does not hold. The keys of \<open>type_dict\<close> are strings, so no other value is found.
\<close>

definition subscript :: "(string \<rightharpoonup> perturb_image_type) \<Rightarrow> cval \<Rightarrow> error + perturb_image_type" where
  "subscript d key =
     (case key of
        StrV name \<Rightarrow> (case d name of None \<Rightarrow> Inl (KeyError key) | Some t \<Rightarrow> Inr t)
      | _ \<Rightarrow> Inl (KeyError key))"

text \<open>
  The rest of the import, \<^verbatim>\<open>super().from_config(config_dict, merge_default=merge_default)\<close>,
  ends in the library's \<^verbatim>\<open>cls(**config_dict)\<close>: the constructor is called with the
  entries as keyword arguments, \<open>step\<close> taking its default 1 when absent (with or without
  \<open>merge_default\<close>). A key the constructor does not declare is a \<open>TypeError\<close>. The
  record is typed, so an entry that is missing or not of the declared type is rejected
  here as a \<open>TypeError\<close> too (Python would store it unchecked).
\<close>

fun the_type :: "cval option \<Rightarrow> perturb_image_type option" where
  "the_type (Some (TypeV t)) = Some t"
| "the_type _ = None"

fun the_string :: "cval option \<Rightarrow> string option" where
  "the_string (Some (StrV s)) = Some s"
| "the_string _ = None"

fun the_number :: "cval option \<Rightarrow> rat option" where
  "the_number (Some (FloatV r)) = Some r"
| "the_number (Some (IntV i)) = Some (rat_of_int i)"
| "the_number _ = None"

fun the_count :: "cval option \<Rightarrow> int option" where
  "the_count None = Some 1"
| "the_count (Some (IntV n)) = Some n"
| "the_count _ = None"

definition init_keys :: "string list" where
  "init_keys = [''perturber'', ''theta_key'', ''start'', ''stop'', ''step'']"

definition super_from_config :: "config \<Rightarrow> error + LinSpacePerturbImageFactory" where
  "super_from_config cfg =
     (if \<not> list_all (\<lambda>k. k \<in> set init_keys) (map fst cfg)
      then Inl (TypeError ''__init__() got an unexpected keyword argument'')
      else
        (case the_type (map_of cfg ''perturber'') of
           None \<Rightarrow> Inl (TypeError ''Passed a perturber instance, expected type'')
         | Some t \<Rightarrow>
        (case the_string (map_of cfg ''theta_key'') of
           None \<Rightarrow> Inl (TypeError ''theta_key'')
         | Some key \<Rightarrow>
        (case the_number (map_of cfg ''start'') of
           None \<Rightarrow> Inl (TypeError ''start'')
         | Some a \<Rightarrow>
        (case the_number (map_of cfg ''stop'') of
           None \<Rightarrow> Inl (TypeError ''stop'')
         | Some b \<Rightarrow>
        (case the_count (map_of cfg ''step'') of
           None \<Rightarrow> Inl (TypeError ''step'')
         | Some n \<Rightarrow>
             Inr \<lparr>perturber = t, theta_key = key, start = a, stop = b, step = n\<rparr>))))))"

text \<open>
  \<^verbatim>\<open>
  @classmethod
  def from_config(cls, config_dict, merge_default=True):
      config_dict = dict(config_dict)
      perturber_impls = PerturbImage.get_impls()
      type_dict = {pert_impl.__name__: pert_impl for pert_impl in perturber_impls}
      config_dict["perturber"] = type_dict[config_dict["perturber"]]
      return super().from_config(config_dict, merge_default=merge_default)
  \<close>
  Both subscripts can raise \<open>KeyError\<close>: \<^verbatim>\<open>config_dict["perturber"]\<close> when the
  configuration has no such entry, \<^verbatim>\<open>type_dict[...]\<close> when the name is not registered.
\<close>

definition from_config :: "perturb_image_type list \<Rightarrow> config \<Rightarrow> error + LinSpacePerturbImageFactory" where
  "from_config perturber_impls config_dict =
     (case map_of config_dict ''perturber'' of
        None \<Rightarrow> Inl (KeyError (StrV ''perturber''))
      | Some name \<Rightarrow>
          (case subscript (type_dict perturber_impls) name of
             Inl e \<Rightarrow> Inl e
           | Inr t \<Rightarrow> super_from_config (AList.update ''perturber'' (TypeV t) config_dict)))"

text \<open>The factory of the scenarios: \<open>DummyPerturber\<close> varied over \<open>param_1\<close>.\<close>

definition example_factory :: "rat \<Rightarrow> rat \<Rightarrow> int \<Rightarrow> LinSpacePerturbImageFactory" where
  "example_factory a b n =
     \<lparr>perturber = DummyPerturber, theta_key = ''param_1'', start = a, stop = b, step = n\<rparr>"

text \<open>The Step factory of the test scenarios.\<close>

definition example_step :: "int \<Rightarrow> int \<Rightarrow> int \<Rightarrow> StepPerturbImageFactory" where
  "example_step a b n =
     \<lparr>step_perturber = DummyPerturber, step_theta_key = ''param_1'',
      step_start = a, step_stop = b, step_size = n\<rparr>"


section \<open>Combinations and the response generator\<close>

text \<open>
  The expected number of combinations, as
  \<open>tests/impls/gen_object_detector_blackbox_response/test_generator_utils.py\<close> computes it
  in \<open>generator_assertions\<close>:
  \<^verbatim>\<open>
  num_perturber_combos = 1 if len(perturber_factories) else 0
  for factory in perturber_factories:
      num_perturber_combos *= len(factory)
  \<close>
  The factories are any objects with a length, \<open>length_of\<close>.
\<close>

definition num_perturber_combos :: "('f \<Rightarrow> nat) \<Rightarrow> 'f list \<Rightarrow> nat" where
  "num_perturber_combos length_of perturber_factories =
     foldl (\<lambda>combos factory. combos * length_of factory)
       (if length perturber_factories \<noteq> 0 then 1 else 0) perturber_factories"

text \<open>
  Modelled from the spec: the generator
  (\<open>GenerateObjectDetectorBlackboxResponse\<close> and its implementations) is not among the
  sources; only the assertions its tests make are. Section 4.3: the index tuples
  \<open>(i_0, \<dots>, i_{n-1})\<close> in row-major order, the last factory's index varying fastest.
\<close>

fun index_product :: "nat list \<Rightarrow> nat list list" where
  "index_product [] = [[]]"
| "index_product (l # ls) = concat (map (\<lambda>i. map ((#) i) (index_product ls)) [0..<l])"

text \<open>A sequence of fallible steps stops at the first failure, as a raised exception does.\<close>

fun sequence_map :: "('a \<Rightarrow> 'e + 'b) \<Rightarrow> 'a list \<Rightarrow> 'e + 'b list" where
  "sequence_map f [] = Inr []"
| "sequence_map f (x # xs) =
     (case f x of
        Inl e \<Rightarrow> Inl e
      | Inr y \<Rightarrow> (case sequence_map f xs of Inl e \<Rightarrow> Inl e | Inr ys \<Rightarrow> Inr (y # ys)))"

text \<open>
  Modelled from the spec, section 4.4 step 1: all perturbers of the combination are
  applied to an image in factory order.
\<close>

fun apply_perturbers :: "('p \<Rightarrow> 'img \<Rightarrow> 'e + 'img) \<Rightarrow> 'p list \<Rightarrow> 'img \<Rightarrow> 'e + 'img" where
  "apply_perturbers perturb [] img = Inr img"
| "apply_perturbers perturb (p # ps) img =
     (case perturb p img of
        Inl e \<Rightarrow> Inl e
      | Inr img' \<Rightarrow> apply_perturbers perturb ps img')"

text \<open>
  Modelled from the spec, section 4.4 step 2: consecutive batches of at most
  \<open>batch_size\<close> images, the last one possibly smaller. The batch size is a positive
  integer; for 0 the model forms no batch.
\<close>

function batches :: "nat \<Rightarrow> 'a list \<Rightarrow> 'a list list" where
  "batches batch_size xs =
     (if batch_size = 0 \<or> xs = [] then []
      else take batch_size xs # batches batch_size (drop batch_size xs))"
  by pat_completeness auto
termination
  by (relation "measure (\<lambda>(batch_size, xs). length xs)") auto

declare batches.simps [simp del]

text \<open>
  Modelled from the spec, section 4.4 steps 1 to 3 for one combination: materialise one
  perturber per factory through \<open>get(i_k)\<close>, perturb every dataset image, detect batch
  by batch and concatenate, score each image's detections against its ground truth.
  Any failure aborts (section 7).
\<close>

definition run_combination ::
  "('f \<Rightarrow> nat \<Rightarrow> 'e + 'p) \<Rightarrow> ('p \<Rightarrow> 'img \<Rightarrow> 'e + 'img) \<Rightarrow> ('img list \<Rightarrow> 'e + 'det list) \<Rightarrow>
   ('gt \<Rightarrow> 'det \<Rightarrow> 'e + 'score) \<Rightarrow> 'f list \<Rightarrow> ('img \<times> 'gt) list \<Rightarrow> nat \<Rightarrow> nat list \<Rightarrow>
   'e + 'score list" where
  "run_combination factory_get perturb detect score factories dataset batch_size indices =
     (case sequence_map (\<lambda>(factory, i). factory_get factory i) (zip factories indices) of
        Inl e \<Rightarrow> Inl e
      | Inr combination \<Rightarrow>
     (case sequence_map (apply_perturbers perturb combination) (map fst dataset) of
        Inl e \<Rightarrow> Inl e
      | Inr perturbed \<Rightarrow>
     (case sequence_map detect (batches batch_size perturbed) of
        Inl e \<Rightarrow> Inl e
      | Inr detections \<Rightarrow>
          sequence_map (\<lambda>(truth, dets). score truth dets)
            (zip (map snd dataset) (concat detections)))))"

text \<open>
  Modelled from the spec, section 4.4: the generator returns
  \<open>(ResponseCurve, FullScores)\<close>, one row of per-item scores and one aggregate per
  combination, in enumeration order; zero factories supplied means zero combinations
  and both outputs empty. The aggregation rule is the scorer's and is a parameter.
\<close>

definition generate ::
  "('f \<Rightarrow> nat) \<Rightarrow> ('f \<Rightarrow> nat \<Rightarrow> 'e + 'p) \<Rightarrow> ('p \<Rightarrow> 'img \<Rightarrow> 'e + 'img) \<Rightarrow>
   ('img list \<Rightarrow> 'e + 'det list) \<Rightarrow> ('gt \<Rightarrow> 'det \<Rightarrow> 'e + 'score) \<Rightarrow> ('score list \<Rightarrow> 'agg) \<Rightarrow>
   'f list \<Rightarrow> ('img \<times> 'gt) list \<Rightarrow> nat \<Rightarrow> 'e + ('agg list \<times> 'score list list)" where
  "generate length_of factory_get perturb detect score aggregate factories dataset batch_size =
     (if factories = [] then Inr ([], [])
      else
        (case sequence_map
                (run_combination factory_get perturb detect score factories dataset batch_size)
                (index_product (map length_of factories)) of
           Inl e \<Rightarrow> Inl e
         | Inr full_scores \<Rightarrow> Inr (map aggregate full_scores, full_scores)))"

section \<open>Produced values of the LinSpace factory\<close>


lemma thetas_example: "thetas unrounded_samples (example_factory 1 6 2) = Inr [Finite 1, Finite (7 / 2)]"
  by (simp add: thetas_def np_linspace_def unrounded_samples_def example_factory_def upt_rec)




section \<open>Equal bounds\<close>

text \<open>
  C5. When \<open>start = stop\<close> the LinSpace factory produces the empty sequence whatever the
  count is (also a negative one, since \<open>np.linspace\<close> is not reached) and has length 0;
  the Step factory with \<open>start = stop\<close> produces the empty sequence whatever the step
  size is and has length 0.
\<close>

theorem equal_bounds_empty:
  "(start self = stop self \<longrightarrow> thetas samples self = Inr [] \<and> len samples self = Inr 0) \<and>
   (step_start stepper = step_stop stepper \<longrightarrow>
      step_thetas stepper = Some [] \<and> step_len stepper = Some 0)"
  by (simp add: thetas_def len_def factory_len_def step_thetas_def step_len_def step_from.simps)

text \<open>
  C5 at \<open>LinSpace(4, 4, -3)\<close> and at the Step factory \<open>(4, 4, 1)\<close> of \<open>test_iteration\<close>.
\<close>

theorem equal_bounds_empty_witness:
  "start (example_factory 4 4 (- 3)) = stop (example_factory 4 4 (- 3)) \<and>
   thetas unrounded_samples (example_factory 4 4 (- 3)) = Inr [] \<and>
   len unrounded_samples (example_factory 4 4 (- 3)) = Inr 0 \<and>
   step_start (example_step 4 4 1) = step_stop (example_step 4 4 1) \<and>
   step_thetas (example_step 4 4 1) = Some [] \<and> step_len (example_step 4 4 1) = Some 0"
proof -
  have a: "start (example_factory 4 4 (- 3)) = stop (example_factory 4 4 (- 3))"
    by (simp add: example_factory_def)
  have b: "step_start (example_step 4 4 1) = step_stop (example_step 4 4 1)"
    by (simp add: example_step_def)
  from equal_bounds_empty [of "example_factory 4 4 (- 3)" unrounded_samples "example_step 4 4 1"] a b
  show ?thesis by simp
qed

section \<open>Indexing\<close>








section \<open>Configuration round trip\<close>

lemma map_of_unshared_key:
  assumes "(k, v) \<in> set xs" and "\<And>v'. (k, v') \<in> set xs \<Longrightarrow> v' = v"
  shows "map_of xs k = Some v"
proof -
  from assms(1) obtain v' where found: "map_of xs k = Some v'"
    using weak_map_of_SomeI by fastforce
  then have "(k, v') \<in> set xs"
    by (rule map_of_SomeD)
  with assms(2) found show ?thesis by simp
qed

lemma type_dict_unshared_name:
  assumes "t \<in> set perturber_impls"
    and "\<And>u. u \<in> set perturber_impls \<Longrightarrow> type_name u = type_name t \<Longrightarrow> u = t"
  shows "type_dict perturber_impls (type_name t) = Some t"
  unfolding type_dict_def
proof (rule map_of_unshared_key)
  show "(type_name t, t) \<in> set (rev (map (\<lambda>pert_impl. (type_name pert_impl, pert_impl)) perturber_impls))"
    using assms(1) by auto
next
  fix u
  assume "(type_name t, u) \<in> set (rev (map (\<lambda>pert_impl. (type_name pert_impl, pert_impl)) perturber_impls))"
  then have "u \<in> set perturber_impls" and "type_name u = type_name t"
    by auto
  then show "u = t"
    by (rule assms(2))
qed

lemma get_config_entries:
  "get_config self =
     [(''perturber'', StrV (type_name (perturber self))), (''theta_key'', StrV (theta_key self)),
      (''start'', FloatV (start self)), (''stop'', FloatV (stop self)), (''step'', IntV (step self))]"
  by (simp add: get_config_def base_get_config_def)

lemma super_from_config_exported:
  "super_from_config
     [(''perturber'', TypeV t), (''theta_key'', StrV key),
      (''start'', FloatV a), (''stop'', FloatV b), (''step'', IntV n)] =
   Inr \<lparr>perturber = t, theta_key = key, start = a, stop = b, step = n\<rparr>"
  by (simp add: super_from_config_def init_keys_def)

lemma from_config_get_config:
  assumes "type_dict perturber_impls (type_name (perturber self)) = Some (perturber self)"
  shows "from_config perturber_impls (get_config self) = Inr self"
  using assms
  by (simp add: from_config_def get_config_entries subscript_def super_from_config_exported)

text \<open>
  C3 (as amended). Let the perturber class of a factory be registered (a member of the
  registered implementations) and let no other registered class share its name. Then
  importing the exported configuration succeeds and the hydrated factory is equal to
  the original: it produces the same values, is bound to the same class and the same
  \<open>theta_key\<close>, exports the same configuration, and \<open>get(i)\<close> gives the same result for
  every \<open>i\<close>.
\<close>

theorem config_round_trip:
  assumes "perturber self \<in> set perturber_impls"
    and "\<And>t. t \<in> set perturber_impls \<Longrightarrow> type_name t = type_name (perturber self) \<Longrightarrow>
           t = perturber self"
  shows "\<exists>hydrated. from_config perturber_impls (get_config self) = Inr hydrated \<and>
           hydrated = self \<and>
           thetas samples hydrated = thetas samples self \<and>
           perturber hydrated = perturber self \<and>
           theta_key hydrated = theta_key self \<and>
           get_config hydrated = get_config self \<and>
           (\<forall>i. get samples hydrated i = get samples self i)"
proof -
  have "type_dict perturber_impls (type_name (perturber self)) = Some (perturber self)"
    using assms by (rule type_dict_unshared_name)
  then have "from_config perturber_impls (get_config self) = Inr self"
    by (rule from_config_get_config)
  then show ?thesis by simp
qed

text \<open>
  C3 at \<open>LinSpace(1, 6, 2)\<close> on \<open>DummyPerturber\<close>, with \<open>DummyPerturber\<close> and
  \<open>SaltNoisePerturber\<close> registered.
\<close>

theorem config_round_trip_witness:
  "perturber (example_factory 1 6 2) \<in> set [DummyPerturber, SaltNoisePerturber] \<and>
   from_config [DummyPerturber, SaltNoisePerturber] (get_config (example_factory 1 6 2))
     = Inr (example_factory 1 6 2) \<and>
   get unrounded_samples (example_factory 1 6 2) 1 =
     Inr \<lparr>instance_of = DummyPerturber,
          instance_config = [(''param_1'', Finite (7 / 2)), (''param_2'', Finite 2)]\<rparr>"
proof -
  have reg: "perturber (example_factory 1 6 2) \<in> set [DummyPerturber, SaltNoisePerturber]"
    by (simp add: example_factory_def)
  have uniq: "\<And>t. t \<in> set [DummyPerturber, SaltNoisePerturber] \<Longrightarrow>
      type_name t = type_name (perturber (example_factory 1 6 2)) \<Longrightarrow>
      t = perturber (example_factory 1 6 2)"
    by (auto simp: example_factory_def DummyPerturber_def SaltNoisePerturber_def)
  have g: "get unrounded_samples (example_factory 1 6 2) 1 =
     Inr \<lparr>instance_of = DummyPerturber,
          instance_config = [(''param_1'', Finite (7 / 2)), (''param_2'', Finite 2)]\<rparr>"
  proof -
    have bound: "perturber (example_factory 1 6 2) = DummyPerturber"
      "theta_key (example_factory 1 6 2) = ''param_1''"
      by (simp_all add: example_factory_def)
    have built: "construct DummyPerturber ''param_1'' (Finite (7 / 2)) =
       Inr \<lparr>instance_of = DummyPerturber,
            instance_config = [(''param_1'', Finite (7 / 2)), (''param_2'', Finite 2)]\<rparr>"
      by (simp add: construct_def DummyPerturber_def)
    show ?thesis
      by (simp add: get_def thetas_example getitem_def bound built)
  qed
  from config_round_trip [of "example_factory 1 6 2" "[DummyPerturber, SaltNoisePerturber]"
      unrounded_samples, OF reg uniq] reg g
  show ?thesis by auto
qed

text \<open>
  C3 as stated fails when two registered classes share a name. With \<open>DummyPerturber\<close>
  of \<open>test_step\<close> and a class of the same name from another module both registered,
  \<open>type_dict\<close> keeps the later one: the factory on the first is hydrated bound to the
  second, so the import does not reconstruct it.
\<close>

theorem config_round_trip_shared_name_counterexample:
  "perturber (example_factory 1 6 2) \<in> set [DummyPerturber, OtherDummyPerturber] \<and>
   from_config [DummyPerturber, OtherDummyPerturber] (get_config (example_factory 1 6 2))
     = Inr ((example_factory 1 6 2)\<lparr>perturber := OtherDummyPerturber\<rparr>) \<and>
   from_config [DummyPerturber, OtherDummyPerturber] (get_config (example_factory 1 6 2))
     \<noteq> Inr (example_factory 1 6 2)"
  by (simp add: from_config_def get_config_entries subscript_def type_dict_def
      super_from_config_exported example_factory_def DummyPerturber_def OtherDummyPerturber_def)

section \<open>Import of an unregistered name\<close>

lemma from_config_unregistered:
  assumes "map_of config_dict ''perturber'' = Some (StrV name)"
    and "name \<notin> set (map type_name perturber_impls)"
  shows "from_config perturber_impls config_dict = Inl (KeyError (StrV name))"
proof -
  have "type_dict perturber_impls name = None"
    using assms(2) by (force simp: type_dict_def map_of_eq_None_iff)
  with assms(1) show ?thesis
    by (simp add: from_config_def subscript_def)
qed

text \<open>
  C7. The claim asks for a \<open>ValueError\<close> whose message says the name "is not a valid
  perturber". \<open>LinSpacePerturbImageFactory.from_config\<close> subscripts \<open>type_dict\<close> without a
  check, so the configuration of \<open>test_hyrdation_bounds\<close> (perturber name
  \<open>"not a perturber"\<close>) ends in the raw \<open>KeyError\<close> of the lookup.
\<close>

theorem from_config_unregistered_name:
  "from_config [DummyPerturber]
     [(''perturber'', StrV ''not a perturber''), (''theta_key'', StrV ''param_1''),
      (''start'', FloatV 1), (''stop'', FloatV 6), (''step'', IntV 2)]
   = Inl (KeyError (StrV ''not a perturber''))"
  by (simp add: from_config_def subscript_def type_dict_def DummyPerturber_def)

section \<open>Number of combinations\<close>

lemma foldl_times_prod:
  "foldl (\<lambda>combos factory. combos * length_of factory) a fs = a * prod_list (map length_of fs)"
  for a :: nat
  by (induction fs arbitrary: a) (simp_all add: mult.assoc)

text \<open>
  C1 (as amended). For one or more factories the number of combinations is the product
  of their lengths; for no factory at all it is 0.
\<close>

theorem combination_count:
  "num_perturber_combos length_of fs = (if fs = [] then 0 else prod_list (map length_of fs))"
  by (simp add: num_perturber_combos_def foldl_times_prod)

text \<open>
  C1 as stated fails for the empty collection: the count is 0, not the empty product 1.
\<close>

theorem combination_count_empty_counterexample:
  "num_perturber_combos length ([] :: nat list list) = 0 \<and>
   num_perturber_combos length ([] :: nat list list) \<noteq> prod_list (map length ([] :: nat list list))"
  by (simp add: num_perturber_combos_def)

section \<open>Shape of the generator's output\<close>

lemma sequence_map_length:
  "sequence_map f xs = Inr ys \<Longrightarrow> length ys = length xs"
  by (induction xs arbitrary: ys) (auto split: sum.splits)

lemma sequence_map_results:
  "sequence_map f xs = Inr ys \<Longrightarrow> list_all2 (\<lambda>x y. f x = Inr y) xs ys"
  by (induction xs arbitrary: ys) (auto split: sum.splits)

lemma length_concat_replicate_rows:
  "length (concat (map (\<lambda>i. map (g i) rows) is)) = length is * length rows"
  by (induction "is") simp_all

lemma length_index_product: "length (index_product ls) = prod_list ls"
  by (induction ls) (simp_all add: length_concat_replicate_rows)

lemma concat_batches: "0 < batch_size \<Longrightarrow> concat (batches batch_size xs) = xs"
proof (induction batch_size xs rule: batches.induct)
  case (1 batch_size xs)
  show ?case
  proof (cases "xs = []")
    case True
    then show ?thesis by (simp add: batches.simps)
  next
    case False
    with "1.prems" "1.IH"
    have ih: "concat (batches batch_size (drop batch_size xs)) = drop batch_size xs"
      by simp
    have "batches batch_size xs = take batch_size xs # batches batch_size (drop batch_size xs)"
      using False "1.prems" by (subst batches.simps) simp
    with ih show ?thesis by simp
  qed
qed

lemma detections_aligned:
  assumes "\<And>batch dets. detect batch = Inr dets \<Longrightarrow> length dets = length batch"
    and "sequence_map detect bs = Inr dss"
  shows "length (concat dss) = length (concat bs)"
  using assms(2)
proof (induction bs arbitrary: dss)
  case Nil
  then show ?case by simp
next
  case (Cons b bs)
  then obtain d ds where d: "detect b = Inr d" and ds: "sequence_map detect bs = Inr ds"
    and dss: "dss = d # ds"
    by (auto split: sum.splits)
  from Cons.IH [OF ds] assms(1) [OF d] dss show ?case by simp
qed

lemma run_combination_row_length:
  assumes per_image: "\<And>batch dets. detect batch = Inr dets \<Longrightarrow> length dets = length batch"
    and pos: "0 < batch_size"
    and run: "run_combination factory_get perturb detect score factories dataset batch_size indices = Inr row"
  shows "length row = length dataset"
proof -
  from run obtain combination perturbed detections where
    p: "sequence_map (apply_perturbers perturb combination) (map fst dataset) = Inr perturbed"
    and d: "sequence_map detect (batches batch_size perturbed) = Inr detections"
    and s: "sequence_map (\<lambda>(truth, dets). score truth dets)
              (zip (map snd dataset) (concat detections)) = Inr row"
    by (auto simp: run_combination_def split: sum.splits)
  have "length perturbed = length dataset"
    using sequence_map_length [OF p] by simp
  moreover have "length (concat detections) = length perturbed"
    using detections_aligned [OF per_image d] by (simp add: concat_batches [OF pos])
  ultimately show ?thesis
    using sequence_map_length [OF s] by simp
qed

text \<open>
  C2. Let the detector return one entry per image of a batch and let the batch size be
  positive. Whenever the generator returns \<open>(curve, full_scores)\<close>, both have as many
  entries as there are combinations (\<open>num_perturber_combos\<close>), and every row of
  \<open>full_scores\<close> has one score per dataset item. With zero factories the generator returns
  two empty sequences.
\<close>

theorem generator_output_shape:
  assumes per_image: "\<And>batch dets. detect batch = Inr dets \<Longrightarrow> length dets = length batch"
    and pos: "0 < batch_size"
    and gen: "generate length_of factory_get perturb detect score aggregate factories dataset batch_size
                = Inr (curve, full_scores)"
  shows "length curve = num_perturber_combos length_of factories \<and>
         length full_scores = num_perturber_combos length_of factories \<and>
         (\<forall>k < length full_scores. length (full_scores ! k) = length dataset) \<and>
         generate length_of factory_get perturb detect score aggregate [] dataset batch_size = Inr ([], [])"
proof (cases "factories = []")
  case True
  with gen show ?thesis
    by (simp add: generate_def num_perturber_combos_def)
next
  case False
  let ?run = "run_combination factory_get perturb detect score factories dataset batch_size"
  from gen False have rows: "sequence_map ?run (index_product (map length_of factories)) = Inr full_scores"
    and curve: "curve = map aggregate full_scores"
    by (auto simp: generate_def split: sum.splits)
  have n: "length full_scores = num_perturber_combos length_of factories"
    using sequence_map_length [OF rows] False
    by (simp add: length_index_product num_perturber_combos_def foldl_times_prod)
  have each: "length (full_scores ! k) = length dataset" if "k < length full_scores" for k
  proof -
    from sequence_map_results [OF rows] that
    have "?run (index_product (map length_of factories) ! k) = Inr (full_scores ! k)"
      by (simp add: list_all2_conv_all_nth)
    with per_image pos show ?thesis
      by (rule run_combination_row_length [where detect = detect])
  qed
  from n each curve show ?thesis
    by (simp add: generate_def)
qed

text \<open>
  C2 on a sweep of two factories of lengths 3 and 2 over a dataset of three items, in
  batches of 2: six combinations, six rows of three scores each; and on no factory.
\<close>

theorem generator_output_shape_witness:
  "generate length (\<lambda>f i. (Inr (f ! i) :: error + rat)) (\<lambda>p img. Inr (img + p)) Inr
       (\<lambda>t d. Inr (d - t)) sum_list [[1, 3, 5], [3, 6]] [(10, 0), (20, 0), (30, 0 :: rat)] 2
     = Inr ([72, 81, 78, 87, 84, 93],
         [[14, 24, 34], [17, 27, 37], [16, 26, 36], [19, 29, 39], [18, 28, 38], [21, 31, 41]]) \<and>
   num_perturber_combos length [[1, 3, 5], [3, 6 :: rat]] = 6 \<and>
   generate length (\<lambda>f i. (Inr (f ! i) :: error + rat)) (\<lambda>p img. Inr (img + p)) Inr
       (\<lambda>t d. Inr (d - t)) sum_list [] [(10, 0), (20, 0), (30, 0 :: rat)] 2
     = Inr ([], [])"
proof -
  have per_image: "\<And>batch dets. (Inr batch :: error + rat list) = Inr dets \<Longrightarrow> length dets = length batch"
    by simp
  have pos: "0 < (2 :: nat)"
    by simp
  have run: "generate length (\<lambda>f i. (Inr (f ! i) :: error + rat)) (\<lambda>p img. Inr (img + p)) Inr
       (\<lambda>t d. Inr (d - t)) sum_list [[1, 3, 5], [3, 6]] [(10, 0), (20, 0), (30, 0 :: rat)] 2
     = Inr ([72, 81, 78, 87, 84, 93],
         [[14, 24, 34], [17, 27, 37], [16, 26, 36], [19, 29, 39], [18, 28, 38], [21, 31, 41]])"
    by (simp add: generate_def run_combination_def batches.simps upt_rec)
  from generator_output_shape [where detect = Inr, OF per_image pos run] run
  show ?thesis by simp
qed

end
